theory Spec2Isabelle
  imports Main
begin

section \<open>The point layer\<close>

text \<open>
  Modelled from the spec: the point type and its coordinate representations
  (\<open>Point\<close>, \<open>projP1xP1\<close>, \<open>projP2\<close>, \<open>projCached\<close>, \<open>affineCached\<close>) and their
  group-law methods are not part of \<open>scalarmult.go\<close>.  The spec treats addition,
  subtraction, doubling, negation and the conversions between representations as
  already-correct operations of one commutative group, so a value of each
  representation is the group element \<open>'g\<close> it denotes.  Every representation has the
  Go zero value of its struct as well, which denotes no group element (for \<open>Point\<close>
  it is the uninitialized sentinel); the group law applied to it yields it again.
\<close>

datatype 'g Point = Point_unset | P3 'g
datatype 'g projP1xP1 = projP1xP1_unset | P1xP1 'g
datatype 'g projP2 = projP2_unset | P2 'g
datatype 'g projCached = projCached_unset | Cached 'g
datatype 'g affineCached = affineCached_unset | AffineCached 'g

definition NewIdentityPoint :: "'g::ab_group_add Point" where
  "NewIdentityPoint = P3 0"

fun Point_fromP1xP1 :: "'g projP1xP1 \<Rightarrow> 'g Point" where
  "Point_fromP1xP1 (P1xP1 a) = P3 a"
| "Point_fromP1xP1 projP1xP1_unset = Point_unset"

fun Point_fromP2 :: "'g projP2 \<Rightarrow> 'g Point" where
  "Point_fromP2 (P2 a) = P3 a"
| "Point_fromP2 projP2_unset = Point_unset"

definition projP2_Zero :: "'g::ab_group_add projP2" where
  "projP2_Zero = P2 0"

fun projP2_FromP3 :: "'g Point \<Rightarrow> 'g projP2" where
  "projP2_FromP3 (P3 a) = P2 a"
| "projP2_FromP3 Point_unset = projP2_unset"

fun projP2_FromP1xP1 :: "'g projP1xP1 \<Rightarrow> 'g projP2" where
  "projP2_FromP1xP1 (P1xP1 a) = P2 a"
| "projP2_FromP1xP1 projP1xP1_unset = projP2_unset"

fun projP1xP1_Double :: "'g::ab_group_add projP2 \<Rightarrow> 'g projP1xP1" where
  "projP1xP1_Double (P2 a) = P1xP1 (a + a)"
| "projP1xP1_Double projP2_unset = projP1xP1_unset"

fun projP1xP1_Add :: "'g::ab_group_add Point \<Rightarrow> 'g projCached \<Rightarrow> 'g projP1xP1" where
  "projP1xP1_Add (P3 a) (Cached b) = P1xP1 (a + b)"
| "projP1xP1_Add _ _ = projP1xP1_unset"

fun projP1xP1_Sub :: "'g::ab_group_add Point \<Rightarrow> 'g projCached \<Rightarrow> 'g projP1xP1" where
  "projP1xP1_Sub (P3 a) (Cached b) = P1xP1 (a - b)"
| "projP1xP1_Sub _ _ = projP1xP1_unset"

fun projP1xP1_AddAffine :: "'g::ab_group_add Point \<Rightarrow> 'g affineCached \<Rightarrow> 'g projP1xP1" where
  "projP1xP1_AddAffine (P3 a) (AffineCached b) = P1xP1 (a + b)"
| "projP1xP1_AddAffine _ _ = projP1xP1_unset"

fun projP1xP1_SubAffine :: "'g::ab_group_add Point \<Rightarrow> 'g affineCached \<Rightarrow> 'g projP1xP1" where
  "projP1xP1_SubAffine (P3 a) (AffineCached b) = P1xP1 (a - b)"
| "projP1xP1_SubAffine _ _ = projP1xP1_unset"

definition projCached_Zero :: "'g::ab_group_add projCached" where
  "projCached_Zero = Cached 0"

fun projCached_FromP3 :: "'g Point \<Rightarrow> 'g projCached" where
  "projCached_FromP3 (P3 a) = Cached a"
| "projCached_FromP3 Point_unset = projCached_unset"

definition projCached_Select :: "'g projCached \<Rightarrow> 'g projCached \<Rightarrow> bool \<Rightarrow> 'g projCached" where
  "projCached_Select a b cond = (if cond then a else b)"

fun projCached_CondNeg :: "'g::ab_group_add projCached \<Rightarrow> bool \<Rightarrow> 'g projCached" where
  "projCached_CondNeg (Cached a) cond = (if cond then Cached (- a) else Cached a)"
| "projCached_CondNeg projCached_unset cond = projCached_unset"

definition affineCached_Zero :: "'g::ab_group_add affineCached" where
  "affineCached_Zero = AffineCached 0"

fun affineCached_FromP3 :: "'g Point \<Rightarrow> 'g affineCached" where
  "affineCached_FromP3 (P3 a) = AffineCached a"
| "affineCached_FromP3 Point_unset = affineCached_unset"

definition affineCached_Select :: "'g affineCached \<Rightarrow> 'g affineCached \<Rightarrow> bool \<Rightarrow> 'g affineCached" where
  "affineCached_Select a b cond = (if cond then a else b)"

fun affineCached_CondNeg :: "'g::ab_group_add affineCached \<Rightarrow> bool \<Rightarrow> 'g affineCached" where
  "affineCached_CondNeg (AffineCached a) cond = (if cond then AffineCached (- a) else AffineCached a)"
| "affineCached_CondNeg affineCached_unset cond = affineCached_unset"

text \<open>
  Modelled from the spec: \<open>checkInitialized\<close> is not part of \<open>scalarmult.go\<close>.  It
  panics at the first supplied point that is the uninitialized sentinel.
\<close>

datatype error = LengthMismatch | UninitializedPoint

fun checkInitialized :: "'g Point list \<Rightarrow> error option" where
  "checkInitialized [] = None"
| "checkInitialized (Point_unset # ps) = Some UninitializedPoint"
| "checkInitialized (P3 a # ps) = checkInitialized ps"

section \<open>Lookup tables\<close>

text \<open>
  Modelled from the spec: the table types are not part of \<open>scalarmult.go\<close>.  A
  constant-time table (spec 4.2) holds the multiples 1, 2, ..., 8 of a point, each
  computed as the point plus the entry before; its selector starts from the
  identity, visits all eight entries, keeps the one whose index is the digit's
  absolute value, and negates the result for a negative digit.
\<close>

type_synonym 'g projLookupTable = "'g projCached list"
type_synonym 'g affineLookupTable = "'g affineCached list"
type_synonym 'g nafLookupTable5 = "'g projCached list"
type_synonym 'g nafLookupTable8 = "'g affineCached list"

fun projLookupTable_fill :: "'g::ab_group_add Point \<Rightarrow> nat \<Rightarrow> 'g projCached \<Rightarrow> 'g projCached list" where
  "projLookupTable_fill q 0 prev = []"
| "projLookupTable_fill q (Suc n) prev =
     (let next = projCached_FromP3 (Point_fromP1xP1 (projP1xP1_Add q prev))
      in next # projLookupTable_fill q n next)"

definition projLookupTable_FromP3 :: "'g::ab_group_add Point \<Rightarrow> 'g projLookupTable" where
  "projLookupTable_FromP3 q =
     (let first = projCached_FromP3 q in first # projLookupTable_fill q 7 first)"

definition projLookupTable_SelectInto :: "'g::ab_group_add projLookupTable \<Rightarrow> int \<Rightarrow> 'g projCached" where
  "projLookupTable_SelectInto table x =
     (let xabs = \<bar>x\<bar>;
          dest = fold (\<lambda>j dest. projCached_Select (table ! (j - 1)) dest (xabs = int j))
                   [1..<9] projCached_Zero
      in projCached_CondNeg dest (x < 0))"

fun affineLookupTable_fill :: "'g::ab_group_add Point \<Rightarrow> nat \<Rightarrow> 'g affineCached \<Rightarrow> 'g affineCached list" where
  "affineLookupTable_fill q 0 prev = []"
| "affineLookupTable_fill q (Suc n) prev =
     (let next = affineCached_FromP3 (Point_fromP1xP1 (projP1xP1_AddAffine q prev))
      in next # affineLookupTable_fill q n next)"

definition affineLookupTable_FromP3 :: "'g::ab_group_add Point \<Rightarrow> 'g affineLookupTable" where
  "affineLookupTable_FromP3 q =
     (let first = affineCached_FromP3 q in first # affineLookupTable_fill q 7 first)"

definition affineLookupTable_SelectInto :: "'g::ab_group_add affineLookupTable \<Rightarrow> int \<Rightarrow> 'g affineCached" where
  "affineLookupTable_SelectInto table x =
     (let xabs = \<bar>x\<bar>;
          dest = fold (\<lambda>j dest. affineCached_Select (table ! (j - 1)) dest (xabs = int j))
                   [1..<9] affineCached_Zero
      in affineCached_CondNeg dest (x < 0))"

text \<open>
  Modelled from the spec: a NAF table (spec 4.3) holds the odd multiples 1, 3, 5, ...
  of a point, each computed as twice the point plus the entry before (8 entries for
  width 5, 64 entries for width 8); its selector indexes directly by
  \<open>(|digit| - 1) / 2\<close> and negates for a negative digit.
\<close>

definition Point_Add :: "'g::ab_group_add Point \<Rightarrow> 'g Point \<Rightarrow> 'g Point" where
  "Point_Add p q = Point_fromP1xP1 (projP1xP1_Add p (projCached_FromP3 q))"

definition nafLookupTable5_FromP3 :: "'g::ab_group_add Point \<Rightarrow> 'g nafLookupTable5" where
  "nafLookupTable5_FromP3 q =
     (let first = projCached_FromP3 q; q2 = Point_Add q q
      in first # projLookupTable_fill q2 7 first)"

definition nafLookupTable5_SelectInto :: "'g::ab_group_add nafLookupTable5 \<Rightarrow> int \<Rightarrow> 'g projCached" where
  "nafLookupTable5_SelectInto table x =
     projCached_CondNeg (table ! nat ((\<bar>x\<bar> - 1) div 2)) (x < 0)"

definition nafLookupTable8_FromP3 :: "'g::ab_group_add Point \<Rightarrow> 'g nafLookupTable8" where
  "nafLookupTable8_FromP3 q =
     (let first = affineCached_FromP3 q; q2 = Point_Add q q
      in first # affineLookupTable_fill q2 63 first)"

definition nafLookupTable8_SelectInto :: "'g::ab_group_add nafLookupTable8 \<Rightarrow> int \<Rightarrow> 'g affineCached" where
  "nafLookupTable8_SelectInto table x =
     affineCached_CondNeg (table ! nat ((\<bar>x\<bar> - 1) div 2)) (x < 0)"

text \<open>
  Modelled from the spec: the fixed-generator tables (spec 4.4) are not part of
  \<open>scalarmult.go\<close>, and neither is the generator.  The generator \<open>B\<close> is a parameter.
  The radix-16 table has 32 entries, entry \<open>i\<close> the constant-time table of
  \<open>16^(2i) * B\<close> (eight doublings lead from one entry's point to the next); the NAF
  table holds the odd multiples of \<open>B\<close> up to 127.
\<close>

definition Point_Double8 :: "'g::ab_group_add Point \<Rightarrow> 'g Point" where
  "Point_Double8 p = ((\<lambda>p. Point_Add p p) ^^ 8) p"

fun basepointTable_fill :: "'g::ab_group_add Point \<Rightarrow> nat \<Rightarrow> 'g affineLookupTable list" where
  "basepointTable_fill p 0 = []"
| "basepointTable_fill p (Suc n) = affineLookupTable_FromP3 p # basepointTable_fill (Point_Double8 p) n"

definition basepointTable :: "'g::ab_group_add \<Rightarrow> 'g affineLookupTable list" where
  "basepointTable B = basepointTable_fill (P3 B) 32"

definition basepointNafTable :: "'g::ab_group_add \<Rightarrow> 'g nafLookupTable8" where
  "basepointNafTable B = nafLookupTable8_FromP3 (P3 B)"

section \<open>Scalars and their digits\<close>

text \<open>
  A scalar is the integer its fixed-width encoding holds; it is valid when it is
  reduced modulo the group order.
\<close>

definition group_order :: int where
  "group_order = 2 ^ 252 + 27742317777372353535851937790883648493"

definition valid_scalar :: "int \<Rightarrow> bool" where
  "valid_scalar x \<longleftrightarrow> 0 \<le> x \<and> x < group_order"

text \<open>
  Modelled from the spec: \<open>signedRadix16\<close> is not part of \<open>scalarmult.go\<close>.  It takes
  the 64 base-16 digits of the scalar and, from the least significant upward,
  subtracts 16 from a digit that exceeds 8 and adds 1 to the next digit (spec 4.1).
\<close>

fun recenter :: "int list \<Rightarrow> int list" where
  "recenter (d # e # ds) =
     (if d > 8 then (d - 16) # recenter ((e + 1) # ds) else d # recenter (e # ds))"
| "recenter ds = ds"

definition signedRadix16 :: "int \<Rightarrow> int list" where
  "signedRadix16 x = recenter (map (\<lambda>i. (x div 16 ^ i) mod 16) [0..<64])"

text \<open>
  Modelled from the spec: \<open>nonAdjacentForm\<close> is not part of \<open>scalarmult.go\<close>.  It
  scans the 256 bit positions from the lowest; where the remaining value is odd it
  records the centered residue of its low \<open>w\<close> bits and takes that residue away from
  the remaining value, otherwise it records zero; then it advances one bit
  (spec 4.1).
\<close>

fun nonAdjacentForm_scan :: "nat \<Rightarrow> nat \<Rightarrow> int \<Rightarrow> int list" where
  "nonAdjacentForm_scan w 0 k = []"
| "nonAdjacentForm_scan w (Suc n) k =
     (if odd k then
        (let r = k mod 2 ^ w;
             d = (if r \<ge> 2 ^ (w - 1) then r - 2 ^ w else r)
         in d # nonAdjacentForm_scan w n ((k - d) div 2))
      else 0 # nonAdjacentForm_scan w n (k div 2))"

definition nonAdjacentForm :: "int \<Rightarrow> nat \<Rightarrow> int list" where
  "nonAdjacentForm x w = nonAdjacentForm_scan w 256 x"

section \<open>Memory\<close>

text \<open>
  The operations take pointers: the receiver \<open>v\<close>, scalars and points.  A pointer is
  an address, and the memory holds the value each address points to.  A call returns
  the memory it leaves behind, or the error it panics with.
\<close>

record 'g memory =
  point_at :: "nat \<Rightarrow> 'g Point"
  scalar_at :: "nat \<Rightarrow> int"

definition write_point :: "nat \<Rightarrow> 'g Point \<Rightarrow> 'g memory \<Rightarrow> 'g memory" where
  "write_point v p m = m\<lparr>point_at := (point_at m)(v := p)\<rparr>"

section \<open>ScalarBaseMult\<close>

definition ScalarBaseMult_step ::
  "'g::ab_group_add affineLookupTable list \<Rightarrow> int list \<Rightarrow> nat \<Rightarrow> nat \<Rightarrow> 'g memory \<Rightarrow> 'g memory" where
  "ScalarBaseMult_step table digits v i m =
     (let multiple = affineLookupTable_SelectInto (table ! (i div 2)) (digits ! i);
          tmp1 = projP1xP1_AddAffine (point_at m v) multiple
      in write_point v (Point_fromP1xP1 tmp1) m)"

definition ScalarBaseMult :: "'g::ab_group_add \<Rightarrow> nat \<Rightarrow> nat \<Rightarrow> 'g memory \<Rightarrow> 'g memory" where
  "ScalarBaseMult B v x m =
     (let digits = signedRadix16 (scalar_at m x);
          m = write_point v NewIdentityPoint m;
          m = fold (ScalarBaseMult_step (basepointTable B) digits v) (map (\<lambda>k. 2 * k + 1) [0..<32]) m;
          tmp2 = projP2_FromP3 (point_at m v);
          tmp1 = projP1xP1_Double tmp2;
          tmp2 = projP2_FromP1xP1 tmp1;
          tmp1 = projP1xP1_Double tmp2;
          tmp2 = projP2_FromP1xP1 tmp1;
          tmp1 = projP1xP1_Double tmp2;
          tmp2 = projP2_FromP1xP1 tmp1;
          tmp1 = projP1xP1_Double tmp2;
          m = write_point v (Point_fromP1xP1 tmp1) m
      in fold (ScalarBaseMult_step (basepointTable B) digits v) (map (\<lambda>k. 2 * k) [0..<32]) m)"

section \<open>ScalarMult\<close>

definition ScalarMult_step ::
  "'g::ab_group_add projLookupTable \<Rightarrow> int list \<Rightarrow> nat \<Rightarrow> nat \<Rightarrow>
   'g memory \<times> 'g projP1xP1 \<Rightarrow> 'g memory \<times> 'g projP1xP1" where
  "ScalarMult_step table digits v i st =
     (case st of (m, tmp1) \<Rightarrow>
       (let tmp2 = projP2_FromP1xP1 tmp1;
            tmp1 = projP1xP1_Double tmp2;
            tmp2 = projP2_FromP1xP1 tmp1;
            tmp1 = projP1xP1_Double tmp2;
            tmp2 = projP2_FromP1xP1 tmp1;
            tmp1 = projP1xP1_Double tmp2;
            tmp2 = projP2_FromP1xP1 tmp1;
            tmp1 = projP1xP1_Double tmp2;
            m = write_point v (Point_fromP1xP1 tmp1) m;
            multiple = projLookupTable_SelectInto table (digits ! i);
            tmp1 = projP1xP1_Add (point_at m v) multiple
        in (m, tmp1)))"

definition ScalarMult :: "nat \<Rightarrow> nat \<Rightarrow> nat \<Rightarrow> 'g::ab_group_add memory \<Rightarrow> error + 'g memory" where
  "ScalarMult v x q m =
     (case checkInitialized [point_at m q] of
        Some e \<Rightarrow> Inl e
      | None \<Rightarrow>
         (let table = projLookupTable_FromP3 (point_at m q);
              digits = signedRadix16 (scalar_at m x);
              multiple = projLookupTable_SelectInto table (digits ! 63);
              m = write_point v NewIdentityPoint m;
              tmp1 = projP1xP1_Add (point_at m v) multiple;
              (m, tmp1) = fold (ScalarMult_step table digits v) (rev [0..<63]) (m, tmp1)
          in Inr (write_point v (Point_fromP1xP1 tmp1) m)))"

section \<open>MultiScalarMult\<close>

definition MultiScalarMult_add ::
  "'g::ab_group_add projLookupTable list \<Rightarrow> int list list \<Rightarrow> nat \<Rightarrow> nat \<Rightarrow> nat \<Rightarrow> 'g memory \<Rightarrow> 'g memory" where
  "MultiScalarMult_add tables digits v i j m =
     (let multiple = projLookupTable_SelectInto (tables ! j) (digits ! j ! i);
          tmp1 = projP1xP1_Add (point_at m v) multiple
      in write_point v (Point_fromP1xP1 tmp1) m)"

definition MultiScalarMult_step ::
  "'g::ab_group_add projLookupTable list \<Rightarrow> int list list \<Rightarrow> nat \<Rightarrow> nat \<Rightarrow>
   'g memory \<times> 'g projP2 \<Rightarrow> 'g memory \<times> 'g projP2" where
  "MultiScalarMult_step tables digits v i st =
     (case st of (m, tmp2) \<Rightarrow>
       (let tmp1 = projP1xP1_Double tmp2;
            tmp2 = projP2_FromP1xP1 tmp1;
            tmp1 = projP1xP1_Double tmp2;
            tmp2 = projP2_FromP1xP1 tmp1;
            tmp1 = projP1xP1_Double tmp2;
            tmp2 = projP2_FromP1xP1 tmp1;
            tmp1 = projP1xP1_Double tmp2;
            m = write_point v (Point_fromP1xP1 tmp1) m;
            m = fold (MultiScalarMult_add tables digits v i) [0..<length tables] m;
            tmp2 = projP2_FromP3 (point_at m v)
        in (m, tmp2)))"

definition MultiScalarMult ::
  "nat \<Rightarrow> nat list \<Rightarrow> nat list \<Rightarrow> 'g::ab_group_add memory \<Rightarrow> error + 'g memory" where
  "MultiScalarMult v scalars points m =
     (if length scalars \<noteq> length points then Inl LengthMismatch
      else case checkInitialized (map (point_at m) points) of
        Some e \<Rightarrow> Inl e
      | None \<Rightarrow>
         (let tables = map (\<lambda>i. projLookupTable_FromP3 (point_at m (points ! i))) [0..<length points];
              digits = map (\<lambda>i. signedRadix16 (scalar_at m (scalars ! i))) [0..<length scalars];
              m = fold (MultiScalarMult_add tables digits v 63) [0..<length tables] m;
              tmp2 = projP2_FromP3 (point_at m v);
              (m, tmp2) = fold (MultiScalarMult_step tables digits v) (rev [0..<63]) (m, tmp2)
          in Inr m))"

section \<open>VarTimeDoubleScalarBaseMult\<close>

text \<open>
  The search for the first nonzero coefficient runs on its own variable \<open>j\<close>: it
  stops at the highest position where either digit is nonzero, or falls off the low
  end at -1.  The variable \<open>i\<close>, from which the main loop starts, is not assigned by it.
\<close>

fun VarTimeDoubleScalarBaseMult_search :: "int list \<Rightarrow> int list \<Rightarrow> nat \<Rightarrow> int" where
  "VarTimeDoubleScalarBaseMult_search aNaf bNaf 0 = - 1"
| "VarTimeDoubleScalarBaseMult_search aNaf bNaf (Suc j) =
     (if aNaf ! j \<noteq> 0 \<or> bNaf ! j \<noteq> 0 then int j
      else VarTimeDoubleScalarBaseMult_search aNaf bNaf j)"

definition VarTimeDoubleScalarBaseMult_start :: "int list \<Rightarrow> int list \<Rightarrow> nat" where
  "VarTimeDoubleScalarBaseMult_start aNaf bNaf =
     (let i = 255;
          j = VarTimeDoubleScalarBaseMult_search aNaf bNaf (Suc i)
      in i)"

definition VarTimeDoubleScalarBaseMult_step ::
  "'g::ab_group_add nafLookupTable5 \<Rightarrow> 'g nafLookupTable8 \<Rightarrow> int list \<Rightarrow> int list \<Rightarrow> nat \<Rightarrow> nat \<Rightarrow>
   'g memory \<times> 'g projP2 \<Rightarrow> 'g memory \<times> 'g projP2" where
  "VarTimeDoubleScalarBaseMult_step aTable bTable aNaf bNaf v i st =
     (case st of (m, tmp2) \<Rightarrow>
       (let tmp1 = projP1xP1_Double tmp2;
            (m, tmp1) =
              (if aNaf ! i > 0 then
                 (let m = write_point v (Point_fromP1xP1 tmp1) m;
                      multA = nafLookupTable5_SelectInto aTable (aNaf ! i)
                  in (m, projP1xP1_Add (point_at m v) multA))
               else if aNaf ! i < 0 then
                 (let m = write_point v (Point_fromP1xP1 tmp1) m;
                      multA = nafLookupTable5_SelectInto aTable (- (aNaf ! i))
                  in (m, projP1xP1_Sub (point_at m v) multA))
               else (m, tmp1));
            (m, tmp1) =
              (if bNaf ! i > 0 then
                 (let m = write_point v (Point_fromP1xP1 tmp1) m;
                      multB = nafLookupTable8_SelectInto bTable (bNaf ! i)
                  in (m, projP1xP1_AddAffine (point_at m v) multB))
               else if bNaf ! i < 0 then
                 (let m = write_point v (Point_fromP1xP1 tmp1) m;
                      multB = nafLookupTable8_SelectInto bTable (- (bNaf ! i))
                  in (m, projP1xP1_SubAffine (point_at m v) multB))
               else (m, tmp1))
        in (m, projP2_FromP1xP1 tmp1)))"

definition VarTimeDoubleScalarBaseMult ::
  "'g::ab_group_add \<Rightarrow> nat \<Rightarrow> nat \<Rightarrow> nat \<Rightarrow> nat \<Rightarrow> 'g memory \<Rightarrow> error + 'g memory" where
  "VarTimeDoubleScalarBaseMult B v a A b m =
     (case checkInitialized [point_at m A] of
        Some e \<Rightarrow> Inl e
      | None \<Rightarrow>
         (let aTable = nafLookupTable5_FromP3 (point_at m A);
              aNaf = nonAdjacentForm (scalar_at m a) 5;
              bNaf = nonAdjacentForm (scalar_at m b) 8;
              i = VarTimeDoubleScalarBaseMult_start aNaf bNaf;
              tmp2 = projP2_Zero;
              (m, tmp2) = fold (VarTimeDoubleScalarBaseMult_step aTable (basepointNafTable B) aNaf bNaf v)
                            (rev [0..<Suc i]) (m, tmp2)
          in Inr (write_point v (Point_fromP2 tmp2) m)))"

section \<open>VarTimeMultiScalarMult\<close>

definition VarTimeMultiScalarMult_add ::
  "'g::ab_group_add nafLookupTable5 list \<Rightarrow> int list list \<Rightarrow> nat \<Rightarrow> nat \<Rightarrow> nat \<Rightarrow>
   'g memory \<times> 'g projP1xP1 \<Rightarrow> 'g memory \<times> 'g projP1xP1" where
  "VarTimeMultiScalarMult_add tables nafs v i j st =
     (case st of (m, tmp1) \<Rightarrow>
       (if nafs ! j ! i > 0 then
          (let m = write_point v (Point_fromP1xP1 tmp1) m;
               multiple = nafLookupTable5_SelectInto (tables ! j) (nafs ! j ! i)
           in (m, projP1xP1_Add (point_at m v) multiple))
        else if nafs ! j ! i < 0 then
          (let m = write_point v (Point_fromP1xP1 tmp1) m;
               multiple = nafLookupTable5_SelectInto (tables ! j) (- (nafs ! j ! i))
           in (m, projP1xP1_Sub (point_at m v) multiple))
        else (m, tmp1)))"

definition VarTimeMultiScalarMult_step ::
  "'g::ab_group_add nafLookupTable5 list \<Rightarrow> int list list \<Rightarrow> nat \<Rightarrow> nat \<Rightarrow>
   'g memory \<times> 'g projP2 \<Rightarrow> 'g memory \<times> 'g projP2" where
  "VarTimeMultiScalarMult_step tables nafs v i st =
     (case st of (m, tmp2) \<Rightarrow>
       (let tmp1 = projP1xP1_Double tmp2;
            (m, tmp1) = fold (VarTimeMultiScalarMult_add tables nafs v i) [0..<length nafs] (m, tmp1)
        in (m, projP2_FromP1xP1 tmp1)))"

definition VarTimeMultiScalarMult ::
  "nat \<Rightarrow> nat list \<Rightarrow> nat list \<Rightarrow> 'g::ab_group_add memory \<Rightarrow> error + 'g memory" where
  "VarTimeMultiScalarMult v scalars points m =
     (if length scalars \<noteq> length points then Inl LengthMismatch
      else case checkInitialized (map (point_at m) points) of
        Some e \<Rightarrow> Inl e
      | None \<Rightarrow>
         (let tables = map (\<lambda>i. nafLookupTable5_FromP3 (point_at m (points ! i))) [0..<length points];
              nafs = map (\<lambda>i. nonAdjacentForm (scalar_at m (scalars ! i)) 5) [0..<length scalars];
              tmp2 = projP2_Zero;
              (m, tmp2) = fold (VarTimeMultiScalarMult_step tables nafs v) (rev [0..<256]) (m, tmp2)
          in Inr (write_point v (Point_fromP2 tmp2) m)))"

section \<open>Reference notions\<close>

text \<open>
  The multiple \<open>k * P\<close> of a group element by an integer, by which the results of
  the operations are stated.
\<close>

fun nmul :: "nat \<Rightarrow> 'g::ab_group_add \<Rightarrow> 'g" where
  "nmul 0 P = 0"
| "nmul (Suc n) P = P + nmul n P"

definition gmul :: "int \<Rightarrow> 'g::ab_group_add \<Rightarrow> 'g" where
  "gmul k P = (if k < 0 then - nmul (nat (- k)) P else nmul (nat k) P)"

text \<open>
  The integer a sequence of signed digits denotes in base \<open>b\<close>, least significant
  digit first.
\<close>

fun digits_value :: "int \<Rightarrow> int list \<Rightarrow> int" where
  "digits_value b [] = 0"
| "digits_value b (d # ds) = d + b * digits_value b ds"

text \<open>The point a call leaves in its receiver, or the error it panics with.\<close>

definition returned_point :: "nat \<Rightarrow> error + 'g memory \<Rightarrow> error + 'g Point" where
  "returned_point v r = (case r of Inl e \<Rightarrow> Inl e | Inr m \<Rightarrow> Inr (point_at m v))"

text \<open>
  The iterative sum of the spec's testable property: starting from the identity,
  each term \<open>ScalarMult(scalars[i], points[i])\<close> is computed on the initial memory and
  added to the running sum.
\<close>

fun iterative_sum :: "'g::ab_group_add Point \<Rightarrow> nat \<Rightarrow> nat list \<Rightarrow> nat list \<Rightarrow> 'g memory \<Rightarrow> error + 'g Point" where
  "iterative_sum acc v (s # ss) (p # ps) m =
     (case returned_point v (ScalarMult v s p m) of
        Inl e \<Rightarrow> Inl e
      | Inr t \<Rightarrow> iterative_sum (Point_Add acc t) v ss ps m)"
| "iterative_sum acc v ss ps m = Inr acc"

text \<open>
  A call with receiver \<open>v\<close> frames the memory when it changes no scalar and no point
  other than the one at \<open>v\<close>.
\<close>

definition frame :: "nat \<Rightarrow> 'g memory \<Rightarrow> 'g memory \<Rightarrow> bool" where
  "frame v m m' \<longleftrightarrow> scalar_at m' = scalar_at m \<and> (\<forall>a. a \<noteq> v \<longrightarrow> point_at m' a = point_at m a)"

section \<open>Memory and the up-front checks\<close>

lemma point_at_write_point [simp]:
  "point_at (write_point v p m) a = (if a = v then p else point_at m a)"
  by (simp add: write_point_def)

lemma scalar_at_write_point [simp]: "scalar_at (write_point v p m) = scalar_at m"
  by (simp add: write_point_def)

lemma checkInitialized_unset:
  "Point_unset \<in> set ps \<Longrightarrow> checkInitialized ps = Some UninitializedPoint"
  by (induction ps rule: checkInitialized.induct) auto

lemma checkInitialized_cases:
  "checkInitialized ps = None \<or> checkInitialized ps = Some UninitializedPoint"
  by (induction ps rule: checkInitialized.induct) auto

lemma checkInitialized_None_iff: "checkInitialized ps = None \<longleftrightarrow> Point_unset \<notin> set ps"
  by (induction ps rule: checkInitialized.induct) auto

text \<open>
  C7: \<open>MultiScalarMult\<close> and \<open>VarTimeMultiScalarMult\<close> each fail with
  \<open>LengthMismatch\<close> exactly when the two sequences differ in length.  The check comes
  first: with different lengths the error is \<open>LengthMismatch\<close> whatever the points
  are, uninitialized ones included.
\<close>

theorem LengthMismatch_iff:
  "(MultiScalarMult v scalars points m = Inl LengthMismatch \<longleftrightarrow> length scalars \<noteq> length points) \<and>
   (VarTimeMultiScalarMult v scalars points m = Inl LengthMismatch \<longleftrightarrow> length scalars \<noteq> length points)"
  using checkInitialized_cases [of "map (point_at m) points"]
  by (auto simp add: MultiScalarMult_def VarTimeMultiScalarMult_def Let_def
      split: option.splits prod.splits)

theorem LengthMismatch_iff_witness:
  "MultiScalarMult 0 [1, 2, 3] [4, 5] \<lparr>point_at = (\<lambda>a. Point_unset :: int Point), scalar_at = (\<lambda>a. 0)\<rparr>
     = Inl LengthMismatch \<and>
   VarTimeMultiScalarMult 0 [1, 2, 3] [4, 5] \<lparr>point_at = (\<lambda>a. Point_unset :: int Point), scalar_at = (\<lambda>a. 0)\<rparr>
     = Inl LengthMismatch"
  using LengthMismatch_iff [of 0 "[1, 2, 3]" "[4, 5]"
      "\<lparr>point_at = (\<lambda>a. Point_unset :: int Point), scalar_at = (\<lambda>a. 0)\<rparr>"]
  by simp

text \<open>
  C6, as stated, fails: a multi-term operation given an uninitialized point and
  sequences of different lengths panics with \<open>LengthMismatch\<close>, not with
  \<open>UninitializedPoint\<close>.
\<close>

theorem UninitializedPoint_counterexample:
  "point_at \<lparr>point_at = (\<lambda>a. Point_unset :: int Point), scalar_at = (\<lambda>a. 0)\<rparr> 1 = Point_unset \<and>
   MultiScalarMult 0 [] [1] \<lparr>point_at = (\<lambda>a. Point_unset :: int Point), scalar_at = (\<lambda>a. 0)\<rparr>
     \<noteq> Inl UninitializedPoint"
  by (simp add: MultiScalarMult_def)

text \<open>
  C6, amended: \<open>ScalarMult\<close> and \<open>VarTimeDoubleScalarBaseMult\<close> fail with
  \<open>UninitializedPoint\<close> when their point is the uninitialized sentinel;
  \<open>MultiScalarMult\<close> and \<open>VarTimeMultiScalarMult\<close> do so when the two sequences have
  the same length and any one of the points is the sentinel, whatever the others are.
  The error is returned before any table or digit is computed, and whatever the
  scalars are.
\<close>

theorem UninitializedPoint_up_front:
  "(point_at m q = Point_unset \<longrightarrow> ScalarMult v x q m = Inl UninitializedPoint) \<and>
   (point_at m A = Point_unset \<longrightarrow>
      VarTimeDoubleScalarBaseMult B v a A b m = Inl UninitializedPoint) \<and>
   (length scalars = length points \<and> (\<exists>p \<in> set points. point_at m p = Point_unset) \<longrightarrow>
      MultiScalarMult v scalars points m = Inl UninitializedPoint) \<and>
   (length scalars = length points \<and> (\<exists>p \<in> set points. point_at m p = Point_unset) \<longrightarrow>
      VarTimeMultiScalarMult v scalars points m = Inl UninitializedPoint)"
proof -
  have "checkInitialized (map (point_at m) points) = Some UninitializedPoint"
    if "\<exists>p \<in> set points. point_at m p = Point_unset"
  proof (rule checkInitialized_unset)
    from that obtain p where "p \<in> set points" "point_at m p = Point_unset" by blast
    then show "Point_unset \<in> set (map (point_at m) points)" by force
  qed
  then show ?thesis
    by (simp add: ScalarMult_def VarTimeDoubleScalarBaseMult_def MultiScalarMult_def
        VarTimeMultiScalarMult_def)
qed

theorem UninitializedPoint_up_front_witness:
  "ScalarMult 0 0 2 \<lparr>point_at = (\<lambda>a. if a = 2 then Point_unset else P3 (1::int)), scalar_at = (\<lambda>a. 5)\<rparr>
     = Inl UninitializedPoint \<and>
   VarTimeDoubleScalarBaseMult 1 0 0 2 1
       \<lparr>point_at = (\<lambda>a. if a = 2 then Point_unset else P3 (1::int)), scalar_at = (\<lambda>a. 5)\<rparr>
     = Inl UninitializedPoint \<and>
   MultiScalarMult 0 [0, 1, 2] [1, 2, 3]
       \<lparr>point_at = (\<lambda>a. if a = 2 then Point_unset else P3 (1::int)), scalar_at = (\<lambda>a. 5)\<rparr>
     = Inl UninitializedPoint \<and>
   VarTimeMultiScalarMult 0 [0, 1, 2] [1, 2, 3]
       \<lparr>point_at = (\<lambda>a. if a = 2 then Point_unset else P3 (1::int)), scalar_at = (\<lambda>a. 5)\<rparr>
     = Inl UninitializedPoint"
  using UninitializedPoint_up_front [of
      "\<lparr>point_at = (\<lambda>a. if a = 2 then Point_unset else P3 (1::int)), scalar_at = (\<lambda>a. 5)\<rparr>"
      2 0 0 2 1 0 1 "[0, 1, 2]" "[1, 2, 3]"]
  by simp

text \<open>
  C2 fails on the code.  For \<open>a = 1\<close> and \<open>b = 0\<close> the search stops at position 0, the
  only position with a nonzero digit, yet the doubling loop starts at position 255:
  the search moves its own variable \<open>j\<close> and leaves \<open>i\<close> at 255.
\<close>

theorem VarTimeDoubleScalarBaseMult_start_at_255:
  "VarTimeDoubleScalarBaseMult_search (nonAdjacentForm 1 5) (nonAdjacentForm 0 8) 256 = 0 \<and>
   VarTimeDoubleScalarBaseMult_start (nonAdjacentForm 1 5) (nonAdjacentForm 0 8) = 255"
  by code_simp

section \<open>The frame of a call\<close>

lemma frame_refl [simp]: "frame v m m"
  by (simp add: frame_def)

lemma frame_trans: "frame v m m' \<Longrightarrow> frame v m' m'' \<Longrightarrow> frame v m m''"
  by (simp add: frame_def)

lemma frame_write_point: "frame v m m' \<Longrightarrow> frame v m (write_point v p m')"
  by (simp add: frame_def)

lemma fold_frame:
  assumes "\<And>x s. frame v s (f x s)" and "frame v m s"
  shows "frame v m (fold f xs s)"
  using assms(2)
proof (induction xs arbitrary: s)
  case Nil
  then show ?case by simp
next
  case (Cons x xs)
  have "frame v m (f x s)" using Cons.prems assms(1) frame_trans by blast
  then show ?case using Cons.IH by simp
qed

lemma fold_frame_fst:
  assumes "\<And>x s. frame v (fst s) (fst (f x s))" and "frame v m (fst s)"
  shows "frame v m (fst (fold f xs s))"
  using assms(2)
proof (induction xs arbitrary: s)
  case Nil
  then show ?case by simp
next
  case (Cons x xs)
  have "frame v m (fst (f x s))" using Cons.prems assms(1) frame_trans by blast
  then show ?case using Cons.IH by simp
qed

lemma ScalarBaseMult_step_frame: "frame v m (ScalarBaseMult_step table digits v i m)"
  by (simp add: ScalarBaseMult_step_def Let_def frame_def)

lemma ScalarMult_step_frame: "frame v (fst st) (fst (ScalarMult_step table digits v i st))"
  by (simp add: ScalarMult_step_def Let_def case_prod_beta frame_def)

lemma MultiScalarMult_add_frame: "frame v m (MultiScalarMult_add tables digits v i j m)"
  by (simp add: MultiScalarMult_add_def Let_def frame_def)

lemma MultiScalarMult_step_frame: "frame v (fst st) (fst (MultiScalarMult_step tables digits v i st))"
  unfolding MultiScalarMult_step_def Let_def case_prod_beta fst_conv
  by (intro fold_frame MultiScalarMult_add_frame frame_write_point frame_refl)

lemma VarTimeDoubleScalarBaseMult_step_frame:
  "frame v (fst st) (fst (VarTimeDoubleScalarBaseMult_step aTable bTable aNaf bNaf v i st))"
  by (simp add: VarTimeDoubleScalarBaseMult_step_def Let_def frame_def case_prod_beta)

lemma VarTimeMultiScalarMult_add_frame:
  "frame v (fst st) (fst (VarTimeMultiScalarMult_add tables nafs v i j st))"
  by (simp add: VarTimeMultiScalarMult_add_def Let_def frame_def case_prod_beta)

lemma VarTimeMultiScalarMult_step_frame:
  "frame v (fst st) (fst (VarTimeMultiScalarMult_step tables nafs v i st))"
  unfolding VarTimeMultiScalarMult_step_def Let_def case_prod_beta fst_conv
  by (intro fold_frame_fst VarTimeMultiScalarMult_add_frame) simp

lemma ScalarBaseMult_frame: "frame v m (ScalarBaseMult B v x m)"
  unfolding ScalarBaseMult_def Let_def
  by (intro fold_frame ScalarBaseMult_step_frame frame_write_point frame_refl)

lemma Inr_case_option: "(case c of None \<Rightarrow> Inr a | Some e \<Rightarrow> Inl e) = Inr m' \<Longrightarrow> m' = a"
  by (cases c) simp_all

lemma ScalarMult_frame:
  assumes "ScalarMult v x q m = Inr m'"
  shows "frame v m m'"
proof -
  note eq = assms [unfolded ScalarMult_def Let_def case_prod_beta, THEN Inr_case_option]
  show ?thesis
    unfolding eq
    by (intro frame_write_point fold_frame_fst ScalarMult_step_frame) (simp add: frame_def)
qed

lemma Inr_if_case_option:
  "(if b then Inl e' else case c of None \<Rightarrow> Inr a | Some e \<Rightarrow> Inl e) = Inr m' \<Longrightarrow> m' = a"
  by (cases c; cases b) simp_all

lemma MultiScalarMult_frame:
  assumes "MultiScalarMult v scalars points m = Inr m'"
  shows "frame v m m'"
proof -
  note eq = assms [unfolded MultiScalarMult_def Let_def case_prod_beta, THEN Inr_if_case_option]
  show ?thesis
    unfolding eq
    by (intro fold_frame_fst MultiScalarMult_step_frame) (simp add: fold_frame MultiScalarMult_add_frame)
qed

lemma VarTimeDoubleScalarBaseMult_frame:
  assumes "VarTimeDoubleScalarBaseMult B v a A b m = Inr m'"
  shows "frame v m m'"
proof -
  note eq = assms [unfolded VarTimeDoubleScalarBaseMult_def Let_def case_prod_beta, THEN Inr_case_option]
  show ?thesis
    unfolding eq
    by (intro frame_write_point fold_frame_fst VarTimeDoubleScalarBaseMult_step_frame) simp
qed

lemma VarTimeMultiScalarMult_frame:
  assumes "VarTimeMultiScalarMult v scalars points m = Inr m'"
  shows "frame v m m'"
proof -
  note eq = assms [unfolded VarTimeMultiScalarMult_def Let_def case_prod_beta, THEN Inr_if_case_option]
  show ?thesis
    unfolding eq
    by (intro frame_write_point fold_frame_fst VarTimeMultiScalarMult_step_frame) simp
qed

text \<open>
  C10: a call changes no scalar and no point other than its receiver.  So when the
  receiver aliases no point argument, every scalar and every point passed in holds
  after the call the value it held before, for each of the five operations.
\<close>

theorem arguments_unchanged:
  "(scalar_at (ScalarBaseMult B v x m) x = scalar_at m x) \<and>
   (ScalarMult v x q m = Inr m' \<and> v \<noteq> q \<longrightarrow>
      scalar_at m' x = scalar_at m x \<and> point_at m' q = point_at m q) \<and>
   (MultiScalarMult v scalars points m = Inr m' \<and> v \<notin> set points \<longrightarrow>
      (\<forall>s \<in> set scalars. scalar_at m' s = scalar_at m s) \<and>
      (\<forall>p \<in> set points. point_at m' p = point_at m p)) \<and>
   (VarTimeDoubleScalarBaseMult B v a A b m = Inr m' \<and> v \<noteq> A \<longrightarrow>
      scalar_at m' a = scalar_at m a \<and> scalar_at m' b = scalar_at m b \<and>
      point_at m' A = point_at m A) \<and>
   (VarTimeMultiScalarMult v scalars points m = Inr m' \<and> v \<notin> set points \<longrightarrow>
      (\<forall>s \<in> set scalars. scalar_at m' s = scalar_at m s) \<and>
      (\<forall>p \<in> set points. point_at m' p = point_at m p))"
proof (intro conjI impI)
  show "scalar_at (ScalarBaseMult B v x m) x = scalar_at m x"
    using ScalarBaseMult_frame [of v m B x] by (simp add: frame_def)
next
  assume "ScalarMult v x q m = Inr m' \<and> v \<noteq> q"
  then have "frame v m m'" "q \<noteq> v" using ScalarMult_frame by blast+
  then show "scalar_at m' x = scalar_at m x" "point_at m' q = point_at m q"
    by (simp_all add: frame_def)
next
  assume "MultiScalarMult v scalars points m = Inr m' \<and> v \<notin> set points"
  then have "frame v m m'" "v \<notin> set points" using MultiScalarMult_frame by blast+
  then show "\<forall>s \<in> set scalars. scalar_at m' s = scalar_at m s"
    "\<forall>p \<in> set points. point_at m' p = point_at m p"
    by (auto simp add: frame_def)
next
  assume "VarTimeDoubleScalarBaseMult B v a A b m = Inr m' \<and> v \<noteq> A"
  then have "frame v m m'" "A \<noteq> v" using VarTimeDoubleScalarBaseMult_frame by blast+
  then show "scalar_at m' a = scalar_at m a" "scalar_at m' b = scalar_at m b"
    "point_at m' A = point_at m A"
    by (simp_all add: frame_def)
next
  assume "VarTimeMultiScalarMult v scalars points m = Inr m' \<and> v \<notin> set points"
  then have "frame v m m'" "v \<notin> set points" using VarTimeMultiScalarMult_frame by blast+
  then show "\<forall>s \<in> set scalars. scalar_at m' s = scalar_at m s"
    "\<forall>p \<in> set points. point_at m' p = point_at m p"
    by (auto simp add: frame_def)
qed

section \<open>What the receiver holds after a call\<close>

lemma fold_snd_independent:
  assumes "\<And>x s1 s2. snd s1 = snd s2 \<Longrightarrow> snd (f x s1) = snd (f x s2)" and "snd s1 = snd s2"
  shows "snd (fold f xs s1) = snd (fold f xs s2)"
  using assms(2)
proof (induction xs arbitrary: s1 s2)
  case Nil
  then show ?case by simp
next
  case (Cons x xs)
  show ?case using Cons.IH [OF assms(1) [OF Cons.prems]] by simp
qed

lemma fold_point_at_receiver:
  assumes "\<And>x m1 m2. point_at m1 v = point_at m2 v \<Longrightarrow> point_at (f x m1) v = point_at (f x m2) v"
    and "point_at m1 v = point_at m2 v"
  shows "point_at (fold f xs m1) v = point_at (fold f xs m2) v"
  using assms(2)
proof (induction xs arbitrary: m1 m2)
  case Nil
  then show ?case by simp
next
  case (Cons x xs)
  show ?case using Cons.IH [OF assms(1) [OF Cons.prems]] by simp
qed

lemma ScalarBaseMult_step_receiver:
  "point_at m1 v = point_at m2 v \<Longrightarrow>
   point_at (ScalarBaseMult_step table digits v i m1) v = point_at (ScalarBaseMult_step table digits v i m2) v"
  by (simp add: ScalarBaseMult_step_def Let_def)

lemma ScalarMult_step_snd:
  "snd s1 = snd s2 \<Longrightarrow>
   snd (ScalarMult_step table digits v i s1) = snd (ScalarMult_step table digits v i s2)"
  by (simp add: ScalarMult_step_def Let_def case_prod_beta)

lemma VarTimeDoubleScalarBaseMult_step_snd:
  "snd s1 = snd s2 \<Longrightarrow>
   snd (VarTimeDoubleScalarBaseMult_step aTable bTable aNaf bNaf v i s1)
     = snd (VarTimeDoubleScalarBaseMult_step aTable bTable aNaf bNaf v i s2)"
  by (simp add: VarTimeDoubleScalarBaseMult_step_def Let_def case_prod_beta)

lemma VarTimeMultiScalarMult_add_snd:
  "snd s1 = snd s2 \<Longrightarrow>
   snd (VarTimeMultiScalarMult_add tables nafs v i j s1) = snd (VarTimeMultiScalarMult_add tables nafs v i j s2)"
  by (simp add: VarTimeMultiScalarMult_add_def Let_def case_prod_beta)

lemma VarTimeMultiScalarMult_step_snd:
  "snd s1 = snd s2 \<Longrightarrow>
   snd (VarTimeMultiScalarMult_step tables nafs v i s1) = snd (VarTimeMultiScalarMult_step tables nafs v i s2)"
proof -
  assume eq: "snd s1 = snd s2"
  have "snd (fold (VarTimeMultiScalarMult_add tables nafs v i) js (m1, t))
      = snd (fold (VarTimeMultiScalarMult_add tables nafs v i) js (m2, t))" for js m1 m2 t
    by (rule fold_snd_independent [OF VarTimeMultiScalarMult_add_snd]) simp_all
  from this [of "[0..<length nafs]" "fst s1" "projP1xP1_Double (snd s2)" "fst s2"] show ?thesis
    by (simp add: VarTimeMultiScalarMult_step_def Let_def case_prod_beta eq)
qed

lemma returned_point_Inr [simp]: "returned_point v (Inr m) = Inr (point_at m v)"
  by (simp add: returned_point_def)

lemma returned_point_Inl [simp]: "returned_point v (Inl e) = Inl e"
  by (simp add: returned_point_def)

lemma returned_point_ScalarMult:
  "returned_point v (ScalarMult v x q m) =
     (case checkInitialized [point_at m q] of
        Some e \<Rightarrow> Inl e
      | None \<Rightarrow> Inr (Point_fromP1xP1 (snd (fold
          (ScalarMult_step (projLookupTable_FromP3 (point_at m q)) (signedRadix16 (scalar_at m x)) v)
          (rev [0..<63])
          (write_point v NewIdentityPoint m,
           projP1xP1_Add NewIdentityPoint
             (projLookupTable_SelectInto (projLookupTable_FromP3 (point_at m q))
               (signedRadix16 (scalar_at m x) ! 63)))))))"
  by (simp add: ScalarMult_def Let_def case_prod_beta del: upt_rec_numeral split: option.split)

lemma returned_point_VarTimeDoubleScalarBaseMult:
  "returned_point v (VarTimeDoubleScalarBaseMult B v a A b m) =
     (case checkInitialized [point_at m A] of
        Some e \<Rightarrow> Inl e
      | None \<Rightarrow> Inr (Point_fromP2 (snd (fold
          (VarTimeDoubleScalarBaseMult_step (nafLookupTable5_FromP3 (point_at m A)) (basepointNafTable B)
             (nonAdjacentForm (scalar_at m a) 5) (nonAdjacentForm (scalar_at m b) 8) v)
          (rev [0..<Suc (VarTimeDoubleScalarBaseMult_start (nonAdjacentForm (scalar_at m a) 5)
                          (nonAdjacentForm (scalar_at m b) 8))])
          (m, projP2_Zero)))))"
  by (simp add: VarTimeDoubleScalarBaseMult_def Let_def case_prod_beta del: upt_rec_numeral upt_Suc split: option.split)

lemma returned_point_VarTimeMultiScalarMult:
  "returned_point v (VarTimeMultiScalarMult v scalars points m) =
     (if length scalars \<noteq> length points then Inl LengthMismatch
      else case checkInitialized (map (point_at m) points) of
        Some e \<Rightarrow> Inl e
      | None \<Rightarrow> Inr (Point_fromP2 (snd (fold
          (VarTimeMultiScalarMult_step
             (map (\<lambda>i. nafLookupTable5_FromP3 (point_at m (points ! i))) [0..<length points])
             (map (\<lambda>i. nonAdjacentForm (scalar_at m (scalars ! i)) 5) [0..<length scalars]) v)
          (rev [0..<256])
          (m, projP2_Zero)))))"
  by (simp add: VarTimeMultiScalarMult_def Let_def case_prod_beta del: upt_rec_numeral upt_Suc
      split: option.split)

lemma point_at_ScalarBaseMult:
  assumes "scalar_at m1 x = scalar_at m2 x"
  shows "point_at (ScalarBaseMult B v x m1) v = point_at (ScalarBaseMult B v x m2) v"
proof -
  have odd: "point_at (fold (ScalarBaseMult_step table digits v) js (write_point v p m1)) v
      = point_at (fold (ScalarBaseMult_step table digits v) js (write_point v p m2)) v"
    for table digits js p
    by (rule fold_point_at_receiver [OF ScalarBaseMult_step_receiver]) simp_all
  show ?thesis
    unfolding ScalarBaseMult_def Let_def assms
    by (rule fold_point_at_receiver [OF ScalarBaseMult_step_receiver]) (simp_all add: odd del: upt_rec_numeral)
qed

text \<open>
  C9: what \<open>ScalarBaseMult\<close>, \<open>ScalarMult\<close>, \<open>VarTimeDoubleScalarBaseMult\<close> and
  \<open>VarTimeMultiScalarMult\<close> leave in the receiver (or the error they panic with)
  depends only on the values of the arguments.  Two calls on memories that hold the
  same scalars and points at the argument addresses give the same result, whatever
  the receiver and the rest of the memory hold before.
\<close>

theorem receiver_reset:
  "(scalar_at m x = scalar_at m' x \<longrightarrow>
      point_at (ScalarBaseMult B v x m) v = point_at (ScalarBaseMult B v x m') v) \<and>
   (scalar_at m x = scalar_at m' x \<and> point_at m q = point_at m' q \<longrightarrow>
      returned_point v (ScalarMult v x q m) = returned_point v (ScalarMult v x q m')) \<and>
   (scalar_at m a = scalar_at m' a \<and> scalar_at m b = scalar_at m' b \<and> point_at m A = point_at m' A \<longrightarrow>
      returned_point v (VarTimeDoubleScalarBaseMult B v a A b m)
        = returned_point v (VarTimeDoubleScalarBaseMult B v a A b m')) \<and>
   ((\<forall>s \<in> set scalars. scalar_at m s = scalar_at m' s) \<and>
    (\<forall>p \<in> set points. point_at m p = point_at m' p) \<longrightarrow>
      returned_point v (VarTimeMultiScalarMult v scalars points m)
        = returned_point v (VarTimeMultiScalarMult v scalars points m'))"
proof (intro conjI impI)
  assume "scalar_at m x = scalar_at m' x"
  then show "point_at (ScalarBaseMult B v x m) v = point_at (ScalarBaseMult B v x m') v"
    by (rule point_at_ScalarBaseMult)
next
  assume "scalar_at m x = scalar_at m' x \<and> point_at m q = point_at m' q"
  then have eq: "scalar_at m x = scalar_at m' x" "point_at m q = point_at m' q" by simp_all
  have "snd (fold (ScalarMult_step table digits v) js (write_point v p m, t))
      = snd (fold (ScalarMult_step table digits v) js (write_point v p m', t))" for table digits js p t
    by (rule fold_snd_independent [OF ScalarMult_step_snd]) simp_all
  then show "returned_point v (ScalarMult v x q m) = returned_point v (ScalarMult v x q m')"
    by (simp only: returned_point_ScalarMult eq)
next
  assume "scalar_at m a = scalar_at m' a \<and> scalar_at m b = scalar_at m' b \<and> point_at m A = point_at m' A"
  then have eq: "scalar_at m a = scalar_at m' a" "scalar_at m b = scalar_at m' b"
    "point_at m A = point_at m' A" by simp_all
  have "snd (fold (VarTimeDoubleScalarBaseMult_step aTable bTable aNaf bNaf v) js (m, t))
      = snd (fold (VarTimeDoubleScalarBaseMult_step aTable bTable aNaf bNaf v) js (m', t))"
    for aTable bTable aNaf bNaf js t
    by (rule fold_snd_independent [OF VarTimeDoubleScalarBaseMult_step_snd]) simp_all
  then show "returned_point v (VarTimeDoubleScalarBaseMult B v a A b m)
      = returned_point v (VarTimeDoubleScalarBaseMult B v a A b m')"
    by (simp only: returned_point_VarTimeDoubleScalarBaseMult eq)
next
  assume "(\<forall>s \<in> set scalars. scalar_at m s = scalar_at m' s) \<and>
    (\<forall>p \<in> set points. point_at m p = point_at m' p)"
  then have s: "\<And>s. s \<in> set scalars \<Longrightarrow> scalar_at m s = scalar_at m' s"
    and p: "\<And>p. p \<in> set points \<Longrightarrow> point_at m p = point_at m' p" by simp_all
  have tables: "map (\<lambda>i. nafLookupTable5_FromP3 (point_at m (points ! i))) [0..<length points]
      = map (\<lambda>i. nafLookupTable5_FromP3 (point_at m' (points ! i))) [0..<length points]"
    by (rule map_cong) (simp_all add: p)
  have nafs: "map (\<lambda>i. nonAdjacentForm (scalar_at m (scalars ! i)) 5) [0..<length scalars]
      = map (\<lambda>i. nonAdjacentForm (scalar_at m' (scalars ! i)) 5) [0..<length scalars]"
    by (rule map_cong) (simp_all add: s)
  have check: "map (point_at m) points = map (point_at m') points"
    by (rule map_cong) (simp_all add: p)
  have "snd (fold (VarTimeMultiScalarMult_step tables nafs v) js (m, t))
      = snd (fold (VarTimeMultiScalarMult_step tables nafs v) js (m', t))" for tables nafs js t
    by (rule fold_snd_independent [OF VarTimeMultiScalarMult_step_snd]) simp_all
  then show "returned_point v (VarTimeMultiScalarMult v scalars points m)
      = returned_point v (VarTimeMultiScalarMult v scalars points m')"
    by (simp only: returned_point_VarTimeMultiScalarMult tables nafs check)
qed


theorem receiver_reset_witness:
  "point_at (ScalarBaseMult 1 0 0 \<lparr>point_at = (\<lambda>a. if a = 0 then P3 7 else P3 (1::int)), scalar_at = (\<lambda>a. 5)\<rparr>) 0
     = point_at (ScalarBaseMult 1 0 0 \<lparr>point_at = (\<lambda>a. if a = 0 then Point_unset else P3 (1::int)), scalar_at = (\<lambda>a. 5)\<rparr>) 0 \<and>
   returned_point 0 (ScalarMult 0 0 1 \<lparr>point_at = (\<lambda>a. if a = 0 then P3 7 else P3 (1::int)), scalar_at = (\<lambda>a. 5)\<rparr>)
     = returned_point 0 (ScalarMult 0 0 1 \<lparr>point_at = (\<lambda>a. if a = 0 then Point_unset else P3 (1::int)), scalar_at = (\<lambda>a. 5)\<rparr>) \<and>
   returned_point 0 (VarTimeDoubleScalarBaseMult 1 0 0 1 1
       \<lparr>point_at = (\<lambda>a. if a = 0 then P3 7 else P3 (1::int)), scalar_at = (\<lambda>a. 5)\<rparr>)
     = returned_point 0 (VarTimeDoubleScalarBaseMult 1 0 0 1 1
       \<lparr>point_at = (\<lambda>a. if a = 0 then Point_unset else P3 (1::int)), scalar_at = (\<lambda>a. 5)\<rparr>) \<and>
   returned_point 0 (VarTimeMultiScalarMult 0 [0, 1] [1, 2]
       \<lparr>point_at = (\<lambda>a. if a = 0 then P3 7 else P3 (1::int)), scalar_at = (\<lambda>a. 5)\<rparr>)
     = returned_point 0 (VarTimeMultiScalarMult 0 [0, 1] [1, 2]
       \<lparr>point_at = (\<lambda>a. if a = 0 then Point_unset else P3 (1::int)), scalar_at = (\<lambda>a. 5)\<rparr>)"
  using receiver_reset [where m = "\<lparr>point_at = (\<lambda>a. if a = 0 then P3 7 else P3 (1::int)), scalar_at = (\<lambda>a. 5)\<rparr>"
      and m' = "\<lparr>point_at = (\<lambda>a. if a = 0 then Point_unset else P3 (1::int)), scalar_at = (\<lambda>a. 5)\<rparr>"
      and v = 0 and x = 0 and q = 1 and a = 0 and b = 1 and A = 1 and B = 1
      and scalars = "[0, 1]" and points = "[1, 2]"]
  by simp

lemma checkInitialized_single: "p \<noteq> Point_unset \<Longrightarrow> checkInitialized [p] = None"
  by (cases p) simp_all

lemma ScalarMult_returns:
  assumes "point_at m q \<noteq> Point_unset"
  shows "\<exists>m'. ScalarMult v x q m = Inr m'"
  unfolding ScalarMult_def checkInitialized_single [OF assms] option.case Let_def case_prod_beta
  by blast

lemma VarTimeDoubleScalarBaseMult_returns:
  assumes "point_at m A \<noteq> Point_unset"
  shows "\<exists>m'. VarTimeDoubleScalarBaseMult B v a A b m = Inr m'"
  unfolding VarTimeDoubleScalarBaseMult_def checkInitialized_single [OF assms] option.case Let_def case_prod_beta
  by blast

lemma checkInitialized_map:
  "\<forall>p \<in> set points. point_at m p \<noteq> Point_unset \<Longrightarrow> checkInitialized (map (point_at m) points) = None"
  by (auto simp add: checkInitialized_None_iff)

lemma MultiScalarMult_returns:
  assumes "length scalars = length points" and "\<forall>p \<in> set points. point_at m p \<noteq> Point_unset"
  shows "\<exists>m'. MultiScalarMult v scalars points m = Inr m'"
  unfolding MultiScalarMult_def checkInitialized_map [OF assms(2)] option.case Let_def case_prod_beta
  by (simp only: assms(1) not_True_eq_False refl if_False) blast

lemma VarTimeMultiScalarMult_returns:
  assumes "length scalars = length points" and "\<forall>p \<in> set points. point_at m p \<noteq> Point_unset"
  shows "\<exists>m'. VarTimeMultiScalarMult v scalars points m = Inr m'"
  unfolding VarTimeMultiScalarMult_def checkInitialized_map [OF assms(2)] option.case Let_def case_prod_beta
  by (simp only: assms(1) not_True_eq_False refl if_False) blast

theorem arguments_unchanged_witness:
  "scalar_at (ScalarBaseMult 1 0 2 \<lparr>point_at = (\<lambda>a. P3 (1::int)), scalar_at = (\<lambda>a. 5)\<rparr>) 2 = 5 \<and>
   (\<exists>m'. ScalarMult 0 2 1 \<lparr>point_at = (\<lambda>a. P3 (1::int)), scalar_at = (\<lambda>a. 5)\<rparr> = Inr m' \<and>
      scalar_at m' 2 = 5 \<and> point_at m' 1 = P3 1) \<and>
   (\<exists>m'. MultiScalarMult 0 [2, 3] [1, 2] \<lparr>point_at = (\<lambda>a. P3 (1::int)), scalar_at = (\<lambda>a. 5)\<rparr> = Inr m' \<and>
      scalar_at m' 2 = 5 \<and> scalar_at m' 3 = 5 \<and> point_at m' 1 = P3 1 \<and> point_at m' 2 = P3 1) \<and>
   (\<exists>m'. VarTimeDoubleScalarBaseMult 1 0 2 1 3 \<lparr>point_at = (\<lambda>a. P3 (1::int)), scalar_at = (\<lambda>a. 5)\<rparr> = Inr m' \<and>
      scalar_at m' 2 = 5 \<and> scalar_at m' 3 = 5 \<and> point_at m' 1 = P3 1) \<and>
   (\<exists>m'. VarTimeMultiScalarMult 0 [2, 3] [1, 2] \<lparr>point_at = (\<lambda>a. P3 (1::int)), scalar_at = (\<lambda>a. 5)\<rparr> = Inr m' \<and>
      scalar_at m' 2 = 5 \<and> scalar_at m' 3 = 5 \<and> point_at m' 1 = P3 1 \<and> point_at m' 2 = P3 1)"
proof -
  let ?m = "\<lparr>point_at = (\<lambda>a. P3 (1::int)), scalar_at = (\<lambda>a. 5)\<rparr>"
  obtain m1 where m1: "ScalarMult 0 2 1 ?m = Inr m1"
    using ScalarMult_returns [of ?m 1 0 2] by auto
  obtain m2 where m2: "MultiScalarMult 0 [2, 3] [1, 2] ?m = Inr m2"
    using MultiScalarMult_returns [of "[2, 3]" "[1, 2]" ?m 0] by auto
  obtain m3 where m3: "VarTimeDoubleScalarBaseMult 1 0 2 1 3 ?m = Inr m3"
    using VarTimeDoubleScalarBaseMult_returns [of ?m 1 1 0 2 3] by auto
  obtain m4 where m4: "VarTimeMultiScalarMult 0 [2, 3] [1, 2] ?m = Inr m4"
    using VarTimeMultiScalarMult_returns [of "[2, 3]" "[1, 2]" ?m 0] by auto
  show ?thesis
    using m1 m2 m3 m4
      arguments_unchanged [where m = ?m and m' = m1 and v = 0 and x = 2 and q = 1 and B = 1
        and scalars = "[]" and points = "[]" and A = 0]
      arguments_unchanged [where m = ?m and m' = m2 and v = 0 and scalars = "[2, 3]" and points = "[1, 2]"
        and q = 0 and A = 0]
      arguments_unchanged [where m = ?m and m' = m3 and v = 0 and B = 1 and a = 2 and A = 1 and b = 3
        and q = 0 and scalars = "[]" and points = "[]"]
      arguments_unchanged [where m = ?m and m' = m4 and v = 0 and scalars = "[2, 3]" and points = "[1, 2]"
        and q = 0 and A = 0]
    by simp
qed

section \<open>Multiples of a group element and the tables\<close>

lemma nmul_add: "nmul (a + b) P = nmul a P + nmul b P"
  by (induction a) (simp_all add: add.assoc)

lemma nmul_zero [simp]: "nmul n (0::'g::ab_group_add) = 0"
  by (induction n) simp_all

lemma nmul_plus: "nmul n (P + Q) = nmul n P + nmul n Q"
  by (induction n) (simp_all add: algebra_simps)

lemma nmul_uminus: "nmul n (- P) = - nmul n P"
  by (induction n) simp_all

lemma gmul_diff_nat: "gmul (int a - int b) P = nmul a P - nmul b P"
proof (cases "a < b")
  case True
  then obtain c where b: "b = a + c" and "0 < c" by (metis less_imp_add_positive)
  then have "gmul (int a - int b) P = - nmul c P" by (simp add: gmul_def)
  then show ?thesis by (simp add: b nmul_add)
next
  case False
  then obtain c where a: "a = b + c" by (metis le_Suc_ex not_less)
  then have "gmul (int a - int b) P = nmul c P" by (simp add: gmul_def)
  then show ?thesis by (simp add: a nmul_add)
qed

lemma gmul_add: "gmul (j + k) P = gmul j P + gmul k P"
proof -
  obtain a b where j: "j = int a - int b" by (metis int_diff_cases)
  obtain c d where k: "k = int c - int d" by (metis int_diff_cases)
  have "j + k = int (a + c) - int (b + d)" by (simp add: j k)
  then have "gmul (j + k) P = nmul (a + c) P - nmul (b + d) P" by (simp only: gmul_diff_nat)
  then show ?thesis by (simp add: j k gmul_diff_nat nmul_add)
qed

lemma gmul_zero [simp]: "gmul 0 P = 0"
  by (simp add: gmul_def)

lemma gmul_one [simp]: "gmul 1 P = P"
  by (simp add: gmul_def)

lemma gmul_uminus: "gmul (- k) P = - gmul k P"
  by (cases "k = 0") (auto simp add: gmul_def)

lemma gmul_diff: "gmul (j - k) P = gmul j P - gmul k P"
  using gmul_add [of j "- k" P] by (simp add: gmul_uminus)

lemma gmul_of_nat: "gmul (int n) P = nmul n P"
  by (simp add: gmul_def)

lemma gmul_zero_right [simp]: "gmul k (0::'g::ab_group_add) = 0"
  by (simp add: gmul_def)

lemma gmul_plus: "gmul k (P + Q) = gmul k P + gmul k Q"
  by (simp add: gmul_def nmul_plus)

lemma gmul_mult_nat: "gmul (int n * k) P = nmul n (gmul k P)"
  by (induction n) (simp_all add: gmul_add distrib_right)

lemma gmul_mult: "gmul (j * k) P = gmul j (gmul k P)"
proof (cases "j < 0")
  case False
  then obtain n where "j = int n" by (metis nat_0_le not_less)
  then show ?thesis by (simp add: gmul_mult_nat gmul_of_nat)
next
  case True
  then obtain n where j: "j = - int n"
    by (metis int_cases3 neg_0_less_iff_less not_less_iff_gr_or_eq of_nat_less_0_iff)
  have "gmul (j * k) P = - gmul (int n * k) P" by (simp add: j gmul_uminus)
  also have "\<dots> = - nmul n (gmul k P)" by (simp add: gmul_mult_nat)
  also have "\<dots> = gmul j (gmul k P)" by (simp add: j gmul_uminus gmul_of_nat)
  finally show ?thesis .
qed

lemma gmul_two: "gmul 2 P = P + P"
  using gmul_add [of 1 1 P] by simp

lemma double4:
  "(((P + P) + (P + P)) + ((P + P) + (P + P))) + (((P + P) + (P + P)) + ((P + P) + (P + P))) = gmul 16 P"
proof -
  have "(16::int) = 2 * (2 * (2 * 2))" by simp
  then have "gmul 16 P = gmul 2 (gmul 2 (gmul 2 (gmul 2 P)))"
    by (simp only: gmul_mult)
  then show ?thesis by (simp only: gmul_two)
qed

lemma gmul_Suc_int: "gmul (int (Suc i) + 1) p = p + gmul (int i + 1) p"
proof -
  have "int (Suc i) + 1 = 1 + (int i + 1)" by simp
  then show ?thesis by (simp only: gmul_add gmul_one)
qed

lemma gmul_odd_Suc: "gmul (2 * int (Suc i) + 1) q = q + gmul (int i + 1) (q + q)"
proof -
  have "2 * int (Suc i) + 1 = 1 + (int i + 1) * 2" by simp
  then show ?thesis by (simp only: gmul_add gmul_one gmul_mult gmul_two)
qed

lemma gmul_int: "gmul k (p::int) = k * p"
proof -
  have n: "nmul n p = int n * p" for n by (induction n) (simp_all add: algebra_simps)
  show ?thesis by (simp add: gmul_def n)
qed

lemma projLookupTable_fill_length [simp]: "length (projLookupTable_fill p n prev) = n"
  by (induction n arbitrary: prev) (simp_all add: Let_def)

lemma affineLookupTable_fill_length [simp]: "length (affineLookupTable_fill p n prev) = n"
  by (induction n arbitrary: prev) (simp_all add: Let_def)

lemma projLookupTable_fill_nth:
  "j < n \<Longrightarrow> projLookupTable_fill (P3 p) n (Cached c) ! j = Cached (c + gmul (int j + 1) p)"
proof (induction n arbitrary: c j)
  case 0
  then show ?case by simp
next
  case (Suc n)
  show ?case
  proof (cases j)
    case 0
    then show ?thesis by (simp add: Let_def add.commute)
  next
    case (Suc i)
    then have "i < n" using Suc.prems by simp
    then have "projLookupTable_fill (P3 p) n (Cached (p + c)) ! i = Cached (p + c + gmul (int i + 1) p)"
      by (rule Suc.IH)
    then show ?thesis
      unfolding Suc gmul_Suc_int by (simp add: Let_def algebra_simps)
  qed
qed

lemma affineLookupTable_fill_nth:
  "j < n \<Longrightarrow> affineLookupTable_fill (P3 p) n (AffineCached c) ! j = AffineCached (c + gmul (int j + 1) p)"
proof (induction n arbitrary: c j)
  case 0
  then show ?case by simp
next
  case (Suc n)
  show ?case
  proof (cases j)
    case 0
    then show ?thesis by (simp add: Let_def add.commute)
  next
    case (Suc i)
    then have "i < n" using Suc.prems by simp
    then have "affineLookupTable_fill (P3 p) n (AffineCached (p + c)) ! i
        = AffineCached (p + c + gmul (int i + 1) p)"
      by (rule Suc.IH)
    then show ?thesis
      unfolding Suc gmul_Suc_int by (simp add: Let_def algebra_simps)
  qed
qed

lemma projLookupTable_FromP3_nth:
  "j < 8 \<Longrightarrow> projLookupTable_FromP3 (P3 q) ! j = Cached (gmul (int j + 1) q)"
proof (cases j)
  case 0
  then show ?thesis by (simp add: projLookupTable_FromP3_def Let_def)
next
  case (Suc i)
  assume "j < 8"
  then have "i < 7" using Suc by simp
  then show ?thesis
    unfolding Suc gmul_Suc_int by (simp add: projLookupTable_FromP3_def Let_def projLookupTable_fill_nth)
qed

lemma affineLookupTable_FromP3_nth:
  "j < 8 \<Longrightarrow> affineLookupTable_FromP3 (P3 q) ! j = AffineCached (gmul (int j + 1) q)"
proof (cases j)
  case 0
  then show ?thesis by (simp add: affineLookupTable_FromP3_def Let_def)
next
  case (Suc i)
  assume "j < 8"
  then have "i < 7" using Suc by simp
  then show ?thesis
    unfolding Suc gmul_Suc_int by (simp add: affineLookupTable_FromP3_def Let_def affineLookupTable_fill_nth)
qed

lemma Point_Add_P3 [simp]: "Point_Add (P3 a) (P3 b) = P3 (a + b)"
  by (simp add: Point_Add_def)

lemma nafLookupTable5_FromP3_nth:
  "j < 8 \<Longrightarrow> nafLookupTable5_FromP3 (P3 q) ! j = Cached (gmul (2 * int j + 1) q)"
proof (cases j)
  case 0
  then show ?thesis by (simp add: nafLookupTable5_FromP3_def Let_def)
next
  case (Suc i)
  assume "j < 8"
  then have "i < 7" using Suc by simp
  then show ?thesis
    unfolding Suc gmul_odd_Suc by (simp add: nafLookupTable5_FromP3_def Let_def projLookupTable_fill_nth)
qed

lemma nafLookupTable8_FromP3_nth:
  "j < 64 \<Longrightarrow> nafLookupTable8_FromP3 (P3 q) ! j = AffineCached (gmul (2 * int j + 1) q)"
proof (cases j)
  case 0
  then show ?thesis by (simp add: nafLookupTable8_FromP3_def Let_def)
next
  case (Suc i)
  assume "j < 64"
  then have "i < 63" using Suc by simp
  then show ?thesis
    unfolding Suc gmul_odd_Suc by (simp add: nafLookupTable8_FromP3_def Let_def affineLookupTable_fill_nth)
qed

lemma projCached_select_fold:
  "fold (\<lambda>j dest. projCached_Select (table ! (j - 1)) dest (xabs = int j)) [1..<Suc n] init
     = (if 1 \<le> xabs \<and> xabs \<le> int n then table ! (nat xabs - 1) else init)"
proof (induction n)
  case 0
  show ?case by auto
next
  case (Suc n)
  have "[1..<Suc (Suc n)] = [1..<Suc n] @ [Suc n]" by simp
  moreover have "nat (1 + int n) - Suc 0 = n" by simp
  ultimately show ?case
    using Suc.IH by (auto simp add: projCached_Select_def simp del: upt_Suc)
qed

lemma affineCached_select_fold:
  "fold (\<lambda>j dest. affineCached_Select (table ! (j - 1)) dest (xabs = int j)) [1..<Suc n] init
     = (if 1 \<le> xabs \<and> xabs \<le> int n then table ! (nat xabs - 1) else init)"
proof (induction n)
  case 0
  show ?case by auto
next
  case (Suc n)
  have "[1..<Suc (Suc n)] = [1..<Suc n] @ [Suc n]" by simp
  moreover have "nat (1 + int n) - Suc 0 = n" by simp
  ultimately show ?case
    using Suc.IH by (auto simp add: affineCached_Select_def simp del: upt_Suc)
qed

lemma gmul_abs: "x < 0 \<Longrightarrow> - gmul \<bar>x\<bar> q = gmul x q"
  using gmul_uminus [of x q] by simp

lemma projLookupTable_SelectInto_FromP3:
  assumes "\<bar>x\<bar> \<le> 8"
  shows "projLookupTable_SelectInto (projLookupTable_FromP3 (P3 q)) x = Cached (gmul x q)"
proof -
  have upt: "[1..<9] = [1..<Suc 8]" by simp
  have entry: "projLookupTable_FromP3 (P3 q) ! (nat \<bar>x\<bar> - 1) = Cached (gmul \<bar>x\<bar> q)" if "1 \<le> \<bar>x\<bar>"
  proof -
    have "nat \<bar>x\<bar> - 1 < 8" and "int (nat \<bar>x\<bar> - 1) + 1 = \<bar>x\<bar>" using assms that by linarith+
    then show ?thesis using projLookupTable_FromP3_nth [of "nat \<bar>x\<bar> - 1" q] by simp
  qed
  have "fold (\<lambda>j dest. projCached_Select (projLookupTable_FromP3 (P3 q) ! (j - 1)) dest (\<bar>x\<bar> = int j))
          [1..<9] projCached_Zero = Cached (gmul \<bar>x\<bar> q)"
  proof (cases "1 \<le> \<bar>x\<bar>")
    case True
    then show ?thesis
      unfolding upt projCached_select_fold using assms entry by simp
  next
    case False
    then have "x = 0" by linarith
    then show ?thesis
      unfolding upt projCached_select_fold by (simp add: projCached_Zero_def)
  qed
  then show ?thesis
    unfolding projLookupTable_SelectInto_def Let_def
    by (cases "x < 0") (simp_all add: gmul_uminus)
qed

lemma affineLookupTable_SelectInto_FromP3:
  assumes "\<bar>x\<bar> \<le> 8"
  shows "affineLookupTable_SelectInto (affineLookupTable_FromP3 (P3 q)) x = AffineCached (gmul x q)"
proof -
  have upt: "[1..<9] = [1..<Suc 8]" by simp
  have entry: "affineLookupTable_FromP3 (P3 q) ! (nat \<bar>x\<bar> - 1) = AffineCached (gmul \<bar>x\<bar> q)" if "1 \<le> \<bar>x\<bar>"
  proof -
    have "nat \<bar>x\<bar> - 1 < 8" and "int (nat \<bar>x\<bar> - 1) + 1 = \<bar>x\<bar>" using assms that by linarith+
    then show ?thesis using affineLookupTable_FromP3_nth [of "nat \<bar>x\<bar> - 1" q] by simp
  qed
  have "fold (\<lambda>j dest. affineCached_Select (affineLookupTable_FromP3 (P3 q) ! (j - 1)) dest (\<bar>x\<bar> = int j))
          [1..<9] affineCached_Zero = AffineCached (gmul \<bar>x\<bar> q)"
  proof (cases "1 \<le> \<bar>x\<bar>")
    case True
    then show ?thesis
      unfolding upt affineCached_select_fold using assms entry by simp
  next
    case False
    then have "x = 0" by linarith
    then show ?thesis
      unfolding upt affineCached_select_fold by (simp add: affineCached_Zero_def)
  qed
  then show ?thesis
    unfolding affineLookupTable_SelectInto_def Let_def
    by (cases "x < 0") (simp_all add: gmul_uminus)
qed

lemma naf_index:
  assumes "odd x" and "0 < x" and "x < 2 * int n"
  shows "nat ((\<bar>x\<bar> - 1) div 2) < n" and "2 * int (nat ((\<bar>x\<bar> - 1) div 2)) + 1 = x"
  using assms by (auto elim!: oddE)

lemma nafLookupTable5_SelectInto_FromP3:
  assumes "odd x" and "0 < x" and "x < 16"
  shows "nafLookupTable5_SelectInto (nafLookupTable5_FromP3 (P3 q)) x = Cached (gmul x q)"
proof -
  have "x < 2 * int 8" using assms(3) by simp
  note idx = naf_index [OF assms(1,2) this]
  show ?thesis
    unfolding nafLookupTable5_SelectInto_def nafLookupTable5_FromP3_nth [OF idx(1)] idx(2)
    using assms(2) by simp
qed

lemma nafLookupTable8_SelectInto_FromP3:
  assumes "odd x" and "0 < x" and "x < 128"
  shows "nafLookupTable8_SelectInto (nafLookupTable8_FromP3 (P3 q)) x = AffineCached (gmul x q)"
proof -
  have "x < 2 * int 64" using assms(3) by simp
  note idx = naf_index [OF assms(1,2) this]
  show ?thesis
    unfolding nafLookupTable8_SelectInto_def nafLookupTable8_FromP3_nth [OF idx(1)] idx(2)
    using assms(2) by simp
qed

lemma Point_Double8_P3: "Point_Double8 (P3 p) = P3 (gmul 256 p)"
proof -
  have "(256::int) = 2 * (2 * (2 * (2 * (2 * (2 * (2 * 2))))))" by simp
  then have "gmul 256 p = gmul 2 (gmul 2 (gmul 2 (gmul 2 (gmul 2 (gmul 2 (gmul 2 (gmul 2 p)))))))"
    by (simp only: gmul_mult)
  then show ?thesis
    by (simp add: Point_Double8_def eval_nat_numeral gmul_two)
qed

lemma basepointTable_fill_length [simp]: "length (basepointTable_fill p n) = n"
  by (induction n arbitrary: p) simp_all

lemma basepointTable_fill_nth:
  "k < n \<Longrightarrow> basepointTable_fill (P3 p) n ! k = affineLookupTable_FromP3 (P3 (gmul (256 ^ k) p))"
proof (induction n arbitrary: p k)
  case 0
  then show ?case by simp
next
  case (Suc n)
  show ?case
  proof (cases k)
    case 0
    then show ?thesis by simp
  next
    case (Suc i)
    then have "i < n" using Suc.prems by simp
    then show ?thesis
      using Suc.IH [of i "gmul 256 p"] Suc
      by (simp add: Point_Double8_P3 gmul_mult [symmetric] mult.commute)
  qed
qed

lemma basepointTable_nth:
  "k < 32 \<Longrightarrow> basepointTable B ! k = affineLookupTable_FromP3 (P3 (gmul (256 ^ k) B))"
  by (simp add: basepointTable_def basepointTable_fill_nth)

end
